theory Spec2Isabelle
  imports Complex_Main
begin

section \<open>Numbers and errors\<close>

text \<open>
  The program is Python. Its numbers are modelled as real numbers: the arithmetic of
  \<^verbatim>\<open>line.py\<close> and \<^verbatim>\<open>section.py\<close> is exact here, so every statement below is about the
  formulas the code evaluates and not about the rounding of its floating-point results.
  What Python does beyond returning a value is explicit: each exception the code can raise
  is a constructor of \<open>error\<close>, and a fallible computation returns \<open>error + 'a\<close>.
\<close>

datatype error =
    ZeroDivisionError
  | KeyError
  | TypeError
  | NameError
  | ValueError
  | InvalidGeometry

definition and_then :: "error + 'a \<Rightarrow> ('a \<Rightarrow> error + 'b) \<Rightarrow> error + 'b" where
  "and_then m f = (case m of Inl e \<Rightarrow> Inl e | Inr v \<Rightarrow> f v)"

text \<open>Python's \<^verbatim>\<open>x / y\<close> on numbers: a zero divisor raises.\<close>

definition pdiv :: "real \<Rightarrow> real \<Rightarrow> error + real" where
  "pdiv x y = (if y = 0 then Inl ZeroDivisionError else Inr (x / y))"

section \<open>line.py: the local stiffness blocks\<close>

type_synonym matrix = "real list list"

text \<open>
  \<^verbatim>\<open>stiffness_local\<close>, lines 42 to 47: the defaulting of \<^verbatim>\<open>Ay\<close> and \<^verbatim>\<open>Az\<close> and the two
  shear factors. The result is the pair \<^verbatim>\<open>(phiY, phiZ)\<close>.
\<close>

definition shear_factors ::
  "real \<Rightarrow> real \<Rightarrow> real \<Rightarrow> real \<Rightarrow> real \<Rightarrow> real \<Rightarrow> real \<Rightarrow> real \<Rightarrow> error + real \<times> real" where
  "shear_factors L E G Ax Iz Iy Ay0 Az0 =
     (let Ay = (if Ay0 = 0 then Ax else Ay0);
          Az = (if Az0 = 0 then Ax else Az0)
      in and_then
           (if Iz \<noteq> 0
            then and_then (pdiv (12 * Iz) G) (\<lambda>q1. and_then (pdiv q1 Ay) (\<lambda>q2.
                 and_then (pdiv q2 L) (\<lambda>q3. and_then (pdiv q3 L) (\<lambda>q4. Inr (q4 * E)))))
            else Inr 0)
           (\<lambda>phiY. and_then
           (if Iy \<noteq> 0
            then and_then (pdiv (12 * Iy) G) (\<lambda>q1. and_then (pdiv q1 Az) (\<lambda>q2.
                 and_then (pdiv q2 L) (\<lambda>q3. and_then (pdiv q3 L) (\<lambda>q4. Inr (q4 * E)))))
            else Inr 0)
           (\<lambda>phiZ. Inr (phiY, phiZ))))"

text \<open>
  Lines 48 to 51: the axial and torsional stiffness and the two bending base terms, from
  the shear factors. The result is \<^verbatim>\<open>(a, s, kzPre, kyPre)\<close>.
\<close>

definition base_terms ::
  "real \<Rightarrow> real \<Rightarrow> real \<Rightarrow> real \<Rightarrow> real \<Rightarrow> real \<Rightarrow> real \<Rightarrow> real \<Rightarrow> real
     \<Rightarrow> error + real \<times> real \<times> real \<times> real" where
  "base_terms L E G Ax Iz Iy J phiY phiZ =
     and_then (pdiv Ax L) (\<lambda>qa. let a = qa * E in
     and_then (pdiv J L) (\<lambda>qs. let s = qs * G in
     and_then (pdiv Iz (phiY + 1)) (\<lambda>z1. and_then (pdiv z1 L) (\<lambda>z2.
     and_then (pdiv z2 L) (\<lambda>z3. let kzPre = z3 * E in
     and_then (pdiv Iy (phiZ + 1)) (\<lambda>y1. and_then (pdiv y1 L) (\<lambda>y2.
     and_then (pdiv y2 L) (\<lambda>y3. let kyPre = y3 * E in
     Inr (a, s, kzPre, kyPre)))))))))"

text \<open>
  Lines 52 to 103: the twenty stencil coefficients and the four matrices, in the order
  they are yielded. Nothing here can raise.
\<close>

definition blocks ::
  "real \<Rightarrow> real \<Rightarrow> real \<Rightarrow> real \<Rightarrow> real \<Rightarrow> real \<Rightarrow> real \<Rightarrow> matrix list" where
  "blocks L phiY phiZ a s kzPre kyPre =
     (let kz11 = kzPre * 12;
          kz12 = L * kzPre * 6;
          kz13 = - kz11;
          kz14 = kz12;
          kz22 = (phiY + 4) * kzPre * L * L;
          kz23 = - kz12;
          kz24 = (2 - phiY) * kzPre * L * L;
          kz33 = kz11;
          kz34 = kz23;
          kz44 = kz22;
          ky11 = kyPre * 12;
          ky12 = - L * kyPre * 6;
          ky13 = - ky11;
          ky14 = ky12;
          ky22 = (phiZ + 4) * kyPre * L * L;
          ky23 = - ky12;
          ky24 = (2 - phiZ) * kyPre * L * L;
          ky33 = ky11;
          ky34 = ky23;
          ky44 = ky22
      in [ [ [a, 0, 0, 0, 0, 0],
             [0, kz11, 0, 0, 0, kz12],
             [0, 0, ky11, 0, ky12, 0],
             [0, 0, 0, s, 0, 0],
             [0, 0, ky12, 0, ky22, 0],
             [0, kz12, 0, 0, 0, kz22] ],
           [ [- a, 0, 0, 0, 0, 0],
             [0, kz13, 0, 0, 0, kz14],
             [0, 0, ky13, 0, ky14, 0],
             [0, 0, 0, - s, 0, 0],
             [0, 0, ky23, 0, ky24, 0],
             [0, kz23, 0, 0, 0, kz24] ],
           [ [- a, 0, 0, 0, 0, 0],
             [0, kz13, 0, 0, 0, kz23],
             [0, 0, ky13, 0, ky23, 0],
             [0, 0, 0, - s, 0, 0],
             [0, 0, ky14, 0, ky24, 0],
             [0, kz14, 0, 0, 0, kz24] ],
           [ [a, 0, 0, 0, 0, 0],
             [0, kz33, 0, 0, 0, kz34],
             [0, 0, ky33, 0, ky34, 0],
             [0, 0, 0, s, 0, 0],
             [0, 0, ky34, 0, ky44, 0],
             [0, kz34, 0, 0, 0, kz44] ] ])"

text \<open>
  Lines 48 to 103 together: everything \<^verbatim>\<open>stiffness_local\<close> does once the two shear
  factors are known.
\<close>

definition stiffness_from_factors ::
  "real \<Rightarrow> real \<Rightarrow> real \<Rightarrow> real \<Rightarrow> real \<Rightarrow> real \<Rightarrow> real \<Rightarrow> real \<Rightarrow> real \<Rightarrow> error + matrix list" where
  "stiffness_from_factors L E G Ax Iz Iy J phiY phiZ =
     and_then (base_terms L E G Ax Iz Iy J phiY phiZ) (\<lambda>(a, s, kzPre, kyPre).
     Inr (blocks L phiY phiZ a s kzPre kyPre))"

text \<open>
  \<^verbatim>\<open>stiffness_local\<close> is a generator; all of its arithmetic runs before the first
  \<^verbatim>\<open>yield\<close>, so it either raises before yielding anything or yields all four matrices.
  The model returns the error, or the list of the matrices in yield order.
\<close>

definition stiffness_local ::
  "real \<Rightarrow> real \<Rightarrow> real \<Rightarrow> real \<Rightarrow> real \<Rightarrow> real \<Rightarrow> real \<Rightarrow> real \<Rightarrow> real \<Rightarrow> error + matrix list" where
  "stiffness_local L E G Ax Iz Iy Ay Az J =
     and_then (shear_factors L E G Ax Iz Iy Ay Az) (\<lambda>(phiY, phiZ).
     stiffness_from_factors L E G Ax Iz Iy J phiY phiZ)"

section \<open>Matrices\<close>

text \<open>
  A matrix is the list of its rows, as the tuples of tuples that \<^verbatim>\<open>stiffness_local\<close>
  yields. \<^verbatim>\<open>numpy.dot\<close>, \<^verbatim>\<open>ndarray.transpose\<close> and \<^verbatim>\<open>scipy.linalg.block_diag\<close> are library
  functions; they are modelled by what they compute on two-dimensional arguments of
  matching shapes, which is all \<^verbatim>\<open>stiffness_global\<close> passes them when the transform
  matrix is 3 by 3.
\<close>

definition is_matrix :: "nat \<Rightarrow> nat \<Rightarrow> matrix \<Rightarrow> bool" where
  "is_matrix n m A \<longleftrightarrow> length A = n \<and> list_all (\<lambda>r. length r = m) A"

definition ncols :: "matrix \<Rightarrow> nat" where
  "ncols A = (case A of [] \<Rightarrow> 0 | r # _ \<Rightarrow> length r)"

definition transpose_m :: "matrix \<Rightarrow> matrix" where
  "transpose_m A = map (\<lambda>j. map (\<lambda>r. r ! j) A) [0..<ncols A]"

definition dot :: "matrix \<Rightarrow> matrix \<Rightarrow> matrix" where
  "dot A B =
     map (\<lambda>r. map (\<lambda>j. (\<Sum>k\<leftarrow>[0..<length B]. r ! k * B ! k ! j)) [0..<ncols B]) A"

definition block_diag :: "matrix \<Rightarrow> matrix \<Rightarrow> matrix" where
  "block_diag A B =
     map (\<lambda>r. r @ replicate (ncols B) 0) A @ map (\<lambda>r. replicate (ncols A) 0 @ r) B"

text \<open>\<^verbatim>\<open>numpy.linalg.norm\<close> of the triple \<^verbatim>\<open>(x, y, z)\<close>: the Euclidean length.\<close>

definition norm3 :: "real \<Rightarrow> real \<Rightarrow> real \<Rightarrow> real" where
  "norm3 x y z = sqrt (x * x + y * y + z * z)"

text \<open>
  The properties the specification states of matrices: symmetry, and the quadratic form
  \<open>v\<^sup>T K v\<close> being non-negative for every vector \<open>v\<close> of the matrix's dimension.
\<close>

definition symmetric :: "matrix \<Rightarrow> bool" where
  "symmetric K \<longleftrightarrow> transpose_m K = K"

definition quad_form :: "matrix \<Rightarrow> real list \<Rightarrow> real" where
  "quad_form K v = (\<Sum>i\<leftarrow>[0..<length v]. \<Sum>j\<leftarrow>[0..<length v]. v ! i * K ! i ! j * v ! j)"

definition positive_semidefinite :: "matrix \<Rightarrow> bool" where
  "positive_semidefinite K \<longleftrightarrow> (\<forall>v. length v = length K \<longrightarrow> 0 \<le> quad_form K v)"

text \<open>
  The 12 by 12 element matrix \<open>[[G11, G12], [G21, G22]]\<close> of the specification: the rows of
  the left and right blocks joined, the upper pair above the lower pair. The code never
  builds it; it is the layout the specification's guarantee is stated for.
\<close>

definition assemble :: "matrix \<Rightarrow> matrix \<Rightarrow> matrix \<Rightarrow> matrix \<Rightarrow> matrix" where
  "assemble G11 G12 G21 G22 = map2 (@) G11 G12 @ map2 (@) G21 G22"

section \<open>line.py: the global stiffness blocks\<close>

text \<open>
  \<^verbatim>\<open>stiffness_global\<close>, lines 143 to 146. \<^verbatim>\<open>transformMatrix\<close> is imported from the module
  \<^verbatim>\<open>matrix\<close>, which is not among the sources; it is the parameter \<open>tm\<close>, a fallible function
  of the direction and the roll angle. Its call is the first statement, so its error
  comes before any block. The length passed on is a numpy float: where the model of
  \<^verbatim>\<open>stiffness_local\<close> reports \<open>ZeroDivisionError\<close> for a division by that length or by a
  value computed from it, numpy yields \<^verbatim>\<open>inf\<close> or \<^verbatim>\<open>nan\<close> with a warning instead of raising;
  either way no real-valued block results, and \<open>Inl ZeroDivisionError\<close> stands for both.
\<close>

definition stiffness_global ::
  "(real \<Rightarrow> real \<Rightarrow> real \<Rightarrow> real \<Rightarrow> error + matrix)
     \<Rightarrow> real \<Rightarrow> real \<Rightarrow> real \<Rightarrow> real \<Rightarrow> real \<Rightarrow> real \<Rightarrow> real \<Rightarrow> real \<Rightarrow> real \<Rightarrow> real \<Rightarrow> real \<Rightarrow> real
     \<Rightarrow> error + matrix list" where
  "stiffness_global tm x y z E G Ax Iz Iy Ay Az theta J =
     and_then (tm x y z theta) (\<lambda>T.
       let t = block_diag T T;
           r = transpose_m t
       in and_then (stiffness_local (norm3 x y z) E G Ax Iz Iy Ay Az J) (\<lambda>ms.
            Inr (map (\<lambda>m. dot (dot t m) r) ms)))"

section \<open>section.py: cross-sectional coefficients\<close>

text \<open>
  The argument of \<^verbatim>\<open>convert\<close> is a dictionary from parameter names to values. A value is
  a string (the shape tag) or a number. A string in a numeric position raises
  \<open>TypeError\<close>, as Python's arithmetic between \<^verbatim>\<open>str\<close> and \<^verbatim>\<open>float\<close> does.
\<close>

datatype pyval = Str string | Num real

type_synonym pydict = "string \<rightharpoonup> pyval"

type_synonym coefficients = "(string \<times> real) list"

definition num :: "pyval \<Rightarrow> error + real" where
  "num v = (case v of Num x \<Rightarrow> Inr x | Str _ \<Rightarrow> Inl TypeError)"

text \<open>Python's truth value of an argument, for \<^verbatim>\<open>if t:\<close>.\<close>

definition truthy :: "pyval \<Rightarrow> bool" where
  "truthy v = (case v of Num x \<Rightarrow> x \<noteq> 0 | Str s \<Rightarrow> s \<noteq> [])"

text \<open>\<^verbatim>\<open>math.sqrt\<close>: a negative argument raises \<open>ValueError\<close>.\<close>

definition psqrt :: "real \<Rightarrow> error + real" where
  "psqrt x = (if x < 0 then Inl ValueError else Inr (sqrt x))"

text \<open>
  A call \<^verbatim>\<open>f(**kw)\<close> raises \<open>TypeError\<close> unless every required parameter of \<^verbatim>\<open>f\<close> is a
  key of \<^verbatim>\<open>kw\<close> and every key of \<^verbatim>\<open>kw\<close> is a parameter of \<^verbatim>\<open>f\<close>.
\<close>

definition accepts :: "string list \<Rightarrow> string list \<Rightarrow> pydict \<Rightarrow> bool" where
  "accepts required optional kw \<longleftrightarrow>
     list_all (\<lambda>k. kw k \<noteq> None) required \<and> dom kw \<subseteq> set required \<union> set optional"

definition arg :: "pydict \<Rightarrow> string \<Rightarrow> pyval \<Rightarrow> pyval" where
  "arg kw k dflt = (case kw k of None \<Rightarrow> dflt | Some v \<Rightarrow> v)"

text \<open>
  The functions \<^verbatim>\<open>h\<close>, \<^verbatim>\<open>t\<close> and \<^verbatim>\<open>o\<close> are \<open>h_section\<close>, \<open>t_section\<close> and \<open>o_section\<close>
  here, since \<open>o\<close> is function composition in HOL.
\<close>

text \<open>The three fillet terms \<^verbatim>\<open>rd\<close>, \<^verbatim>\<open>rA\<close>, \<^verbatim>\<open>rI\<close> that open both \<^verbatim>\<open>h\<close> and \<^verbatim>\<open>t\<close>.\<close>

definition fillet_rd :: "real \<Rightarrow> real" where
  "fillet_rd r = (1 - 2 / (4 - pi) / 3) * r"

definition fillet_rA :: "real \<Rightarrow> real" where
  "fillet_rA r = (1 - pi * 0.25) * r\<^sup>2"

definition fillet_rI :: "real \<Rightarrow> real" where
  "fillet_rI r = (1 / 3 - pi / 16 - 1 / (4 - pi) / 9) * r ^ 4"

text \<open>\<^verbatim>\<open>h(H, B, tw, tf, r=0)\<close>, lines 111 to 134.\<close>

definition h_section :: "real \<Rightarrow> real \<Rightarrow> real \<Rightarrow> real \<Rightarrow> real \<Rightarrow> error + coefficients" where
  "h_section H B tw tf r =
     (let rd = fillet_rd r;
          rA = fillet_rA r;
          rI = fillet_rI r;
          A = B * tf * 2 + (H - tf * 2) * tw + rA * 4;
          tIf = tf * B * B * B / 12;
          tIw = (H - tf * 2) * tw * tw * tw / 12;
          tIr = rI + rA * ((tw * 0.25 + rd) * tw + rd * rd);
          Iz = tIf * 2 + tIw + tIr * 4;
          tIf = B * tf ^ 3 / 12 + B * tf * (H - tf)\<^sup>2 * 0.25;
          tIw = tw * (H - tf * 2) ^ 3 / 12;
          tIr = rI + rA * (H * 0.5 - tf - rd)\<^sup>2;
          Iy = tIf * 2 + tIw + tIr * 4
      in and_then (pdiv Iy H) (\<lambda>zy.
         and_then (pdiv Iz B) (\<lambda>zz.
         and_then (pdiv Iy A) (\<lambda>qy. and_then (psqrt qy) (\<lambda>iy.
         and_then (pdiv Iz A) (\<lambda>qz. and_then (psqrt qz) (\<lambda>iz.
         Inr [(''Ax'', A),
              (''Ay'', tf * B * 2),
              (''Az'', tw * H),
              (''Iy'', Iy),
              (''Iz'', Iz),
              (''J'', (B * tf ^ 3 * 2 + (H - tf * 2) * tw ^ 3) / 3),
              (''Zy'', zy * 2),
              (''Zz'', zz * 2),
              (''iy'', iy),
              (''iz'', iz)])))))))"

text \<open>\<^verbatim>\<open>t(H, B, tw, tf, r=0)\<close>, lines 178 to 203.\<close>

definition t_section :: "real \<Rightarrow> real \<Rightarrow> real \<Rightarrow> real \<Rightarrow> real \<Rightarrow> error + coefficients" where
  "t_section H B tw tf r =
     (let rd = fillet_rd r;
          rA = fillet_rA r;
          rI = fillet_rI r;
          A = B * tf + (H - tf) * tw + rA * 2;
          Sy = ((B - tw) * tf * tf + H * H * tw) * 0.5 + rA * (tf + rd) * 2
      in and_then (pdiv Sy A) (\<lambda>Cy.
         let tIf = tf * B * B * B / 12;
             tIw = (H - tf) * tw * tw * tw / 12;
             tIr = rI + rA * (tw * 0.5 + rd)\<^sup>2;
             Iz = tIf + tIw + tIr * 2;
             tIf = B * tf * tf * tf / 12 + B * tf * (Cy - tf * 0.5)\<^sup>2;
             tIw = tw * (H - tf) ^ 3 / 12 + tw * (H - tf) * ((H + tf) * 0.5 - Cy)\<^sup>2;
             tIr = rI + rA * (Cy - tf - rd)\<^sup>2;
             Iy = tIf + tIw + tIr * 2
         in and_then (pdiv Iy (max Cy (H - Cy))) (\<lambda>zy.
            and_then (pdiv Iz B) (\<lambda>zz.
            and_then (pdiv Iy A) (\<lambda>qy. and_then (psqrt qy) (\<lambda>iy.
            and_then (pdiv Iz A) (\<lambda>qz. and_then (psqrt qz) (\<lambda>iz.
            Inr [(''Ax'', A),
                 (''Ay'', tf * B),
                 (''Az'', tw * H),
                 (''Iy'', Iy),
                 (''Iz'', Iz),
                 (''Zy'', zy),
                 (''Zz'', zz * 2),
                 (''iy'', iy),
                 (''iz'', iz),
                 (''Cz'', Cy)]))))))))"

text \<open>
  \<^verbatim>\<open>o(D, t=0)\<close>, lines 236 to 252. The thickness is tested for truth before it is used as
  a number, so it stays a value here.
\<close>

definition o_section :: "real \<Rightarrow> pyval \<Rightarrow> error + coefficients" where
  "o_section D t0 =
     (let A = 0.25 * D\<^sup>2 * pi;
          I = 0.015625 * D ^ 4 * pi
      in and_then
           (if truthy t0
            then and_then (num t0) (\<lambda>tn.
                   Inr (A - 0.25 * (D - tn)\<^sup>2 * pi, I - 0.015625 * (D - tn)\<^sup>2 * pi))
            else Inr (A, I))
           (\<lambda>(A, I).
         and_then (pdiv (0.5 * I) D) (\<lambda>Z.
         and_then (pdiv I A) (\<lambda>q. and_then (psqrt q) (\<lambda>i.
         Inr [(''Ax'', A),
              (''Iy'', I),
              (''Iz'', I),
              (''Zy'', Z),
              (''Zz'', Z),
              (''iy'', i),
              (''iz'', i),
              (''J'', I * 2)])))))"

text \<open>
  The keyword calls \<^verbatim>\<open>h(**section_parameters)\<close>, \<^verbatim>\<open>t(**section_parameters)\<close> and
  \<^verbatim>\<open>o(**section_parameters)\<close>. In \<^verbatim>\<open>h\<close> and \<^verbatim>\<open>t\<close> every parameter enters float
  arithmetic before the first division, so a string among them raises \<open>TypeError\<close> before
  any other error can arise.
\<close>

definition call_h :: "pydict \<Rightarrow> error + coefficients" where
  "call_h kw =
     (if \<not> accepts [''H'', ''B'', ''tw'', ''tf''] [''r''] kw then Inl TypeError
      else and_then (num (arg kw ''r'' (Num 0))) (\<lambda>r.
           and_then (num (arg kw ''B'' (Num 0))) (\<lambda>B.
           and_then (num (arg kw ''tf'' (Num 0))) (\<lambda>tf.
           and_then (num (arg kw ''H'' (Num 0))) (\<lambda>H.
           and_then (num (arg kw ''tw'' (Num 0))) (\<lambda>tw.
           h_section H B tw tf r))))))"

definition call_t :: "pydict \<Rightarrow> error + coefficients" where
  "call_t kw =
     (if \<not> accepts [''H'', ''B'', ''tw'', ''tf''] [''r''] kw then Inl TypeError
      else and_then (num (arg kw ''r'' (Num 0))) (\<lambda>r.
           and_then (num (arg kw ''B'' (Num 0))) (\<lambda>B.
           and_then (num (arg kw ''tf'' (Num 0))) (\<lambda>tf.
           and_then (num (arg kw ''H'' (Num 0))) (\<lambda>H.
           and_then (num (arg kw ''tw'' (Num 0))) (\<lambda>tw.
           t_section H B tw tf r))))))"

definition call_o :: "pydict \<Rightarrow> error + coefficients" where
  "call_o kw =
     (if \<not> accepts [''D''] [''t''] kw then Inl TypeError
      else and_then (num (arg kw ''D'' (Num 0))) (\<lambda>D.
           o_section D (arg kw ''t'' (Num 0))))"

text \<open>
  \<^verbatim>\<open>convert\<close>, lines 34 to 46. \<^verbatim>\<open>pop\<close> removes the key \<^verbatim>\<open>'shape'\<close> from the caller's
  dictionary, so the model returns the dictionary as the call leaves it beside the
  outcome. The outcome is an error, or \<open>Some\<close> coefficients, or \<open>None\<close> for Python's \<^verbatim>\<open>None\<close>
  when no branch of the chain is taken. The module defines no \<^verbatim>\<open>i\<close>, \<^verbatim>\<open>c\<close> or \<^verbatim>\<open>r\<close>: their
  branches raise \<open>NameError\<close>.
\<close>

definition convert :: "pydict \<Rightarrow> (error + coefficients option) \<times> pydict" where
  "convert section_parameters =
     (case section_parameters ''shape'' of
        None \<Rightarrow> (Inl KeyError, section_parameters)
      | Some shape \<Rightarrow>
          (let params = section_parameters(''shape'' := None)
           in (if shape = Str ''H'' then and_then (call_h params) (\<lambda>c. Inr (Some c))
               else if shape = Str ''T'' then and_then (call_t params) (\<lambda>c. Inr (Some c))
               else if shape = Str ''I'' then Inl NameError
               else if shape = Str ''O'' then and_then (call_o params) (\<lambda>c. Inr (Some c))
               else if shape = Str ''C'' then Inl NameError
               else if shape = Str ''R'' then Inl NameError
               else Inr None,
               params)))"

text \<open>
  \<^verbatim>\<open>properties(shape, **kwargs)\<close>, lines 66 and 67. \<^verbatim>\<open>kwargs\<close> is a dictionary made for
  the call, so what \<^verbatim>\<open>convert\<close> does to it is not seen by the caller: only the outcome is
  returned.
\<close>

definition properties :: "pyval \<Rightarrow> pydict \<Rightarrow> error + coefficients option" where
  "properties shape kwargs = fst (convert (kwargs(''shape'' \<mapsto> shape)))"

section \<open>The transform matrix\<close>

text \<open>Modelled from the spec: \<^verbatim>\<open>transformMatrix\<close> lives in the module \<^verbatim>\<open>matrix\<close>, which
  is not among the sources. The specification (AxisTransform) fixes its failure, "zero-length
  direction signals an invalid-geometry error; must not proceed", and leaves the
  construction of the direction cosines for a non-zero direction to the implementer; that
  construction is the parameter \<open>build\<close>.
\<close>

definition transformMatrix ::
  "(real \<Rightarrow> real \<Rightarrow> real \<Rightarrow> real \<Rightarrow> matrix) \<Rightarrow> real \<Rightarrow> real \<Rightarrow> real \<Rightarrow> real \<Rightarrow> error + matrix" where
  "transformMatrix build x y z theta =
     (if (x, y, z) = (0, 0, 0) then Inl InvalidGeometry else Inr (build x y z theta))"

text \<open>
  A transform to evaluate \<^verbatim>\<open>stiffness_global\<close> with on concrete inputs: the identity, which
  is the transform of a beam along the global x axis with no roll.
\<close>

definition axis_transform :: "real \<Rightarrow> real \<Rightarrow> real \<Rightarrow> real \<Rightarrow> error + matrix" where
  "axis_transform x y z theta = Inr [[1, 0, 0], [0, 1, 0], [0, 0, 1]]"

section \<open>Notions used in the proofs\<close>

text \<open>
  The value the code uses for a shear area, and the value of a shear factor when no
  divisor is zero, written as the code evaluates it.
\<close>

definition defaulted :: "real \<Rightarrow> real \<Rightarrow> real" where
  "defaulted Ax A = (if A = 0 then Ax else A)"

definition phi_value :: "real \<Rightarrow> real \<Rightarrow> real \<Rightarrow> real \<Rightarrow> real \<Rightarrow> real" where
  "phi_value I G A L E = (if I \<noteq> 0 then 12 * I / G / A / L / L * E else 0)"

text \<open>The product \<open>t m t\<^sup>T\<close> that \<^verbatim>\<open>stiffness_global\<close> forms for each block.\<close>

definition congruence :: "matrix \<Rightarrow> matrix \<Rightarrow> matrix" where
  "congruence t m = dot (dot t m) (transpose_m t)"

text \<open>The bilinear form \<open>x\<^sup>T M y\<close> of a 6 by 6 block, on vectors given by their entries.\<close>

definition bilinear :: "matrix \<Rightarrow> (nat \<Rightarrow> real) \<Rightarrow> (nat \<Rightarrow> real) \<Rightarrow> real" where
  "bilinear M x y = (\<Sum>i<6. \<Sum>j<6. x i * M ! i ! j * y j)"


section \<open>Facts about the local stiffness computation\<close>

lemma and_then_Inr [simp]: "and_then (Inr v) f = f v"
  by (simp add: and_then_def)

lemma and_then_Inl [simp]: "and_then (Inl e) f = Inl e"
  by (simp add: and_then_def)

lemma pdiv_ok [simp]: "y \<noteq> 0 \<Longrightarrow> pdiv x y = Inr (x / y)"
  by (simp add: pdiv_def)

lemma pdiv_zero [simp]: "pdiv x 0 = Inl ZeroDivisionError"
  by (simp add: pdiv_def)

lemma shear_factors_ok:
  assumes "L \<noteq> 0"
    and "Iz \<noteq> 0 \<Longrightarrow> G \<noteq> 0 \<and> defaulted Ax Ay \<noteq> 0"
    and "Iy \<noteq> 0 \<Longrightarrow> G \<noteq> 0 \<and> defaulted Ax Az \<noteq> 0"
  shows "shear_factors L E G Ax Iz Iy Ay Az =
           Inr (phi_value Iz G (defaulted Ax Ay) L E, phi_value Iy G (defaulted Ax Az) L E)"
  using assms by (simp add: shear_factors_def defaulted_def phi_value_def Let_def)

lemma shear_factors_fail:
  assumes "Iz \<noteq> 0 \<and> (G = 0 \<or> defaulted Ax Ay = 0) \<or> Iy \<noteq> 0 \<and> (G = 0 \<or> defaulted Ax Az = 0)"
  shows "shear_factors L E G Ax Iz Iy Ay Az = Inl ZeroDivisionError"
  using assms
  by (auto simp add: shear_factors_def pdiv_def Let_def defaulted_def split: if_splits)

lemma base_terms_ok:
  assumes "L \<noteq> 0" "phiY + 1 \<noteq> 0" "phiZ + 1 \<noteq> 0"
  shows "base_terms L E G Ax Iz Iy J phiY phiZ =
           Inr (Ax / L * E, J / L * G, Iz / (phiY + 1) / L / L * E, Iy / (phiZ + 1) / L / L * E)"
  using assms by (simp add: base_terms_def Let_def)

lemma base_terms_fail:
  assumes "phiY + 1 = 0 \<or> phiZ + 1 = 0"
  shows "base_terms L E G Ax Iz Iy J phiY phiZ = Inl ZeroDivisionError"
  using assms by (auto simp add: base_terms_def pdiv_def Let_def)

lemma phi_value_nonneg:
  assumes "0 < L" "0 \<le> E" "0 < G" "0 \<le> I" "0 \<le> A"
  shows "0 \<le> phi_value I G A L E"
  using assms by (simp add: phi_value_def)

lemma phi_value_spec:
  "phi_value I G A L E = (if I \<noteq> 0 then 12 * E * I / (G * A * L\<^sup>2) else 0)"
  by (simp add: phi_value_def power2_eq_square mult_ac)

lemma stiffness_local_ok:
  assumes "L \<noteq> 0"
    and "Iz \<noteq> 0 \<Longrightarrow> G \<noteq> 0 \<and> defaulted Ax Ay \<noteq> 0"
    and "Iy \<noteq> 0 \<Longrightarrow> G \<noteq> 0 \<and> defaulted Ax Az \<noteq> 0"
    and "phi_value Iz G (defaulted Ax Ay) L E + 1 \<noteq> 0"
    and "phi_value Iy G (defaulted Ax Az) L E + 1 \<noteq> 0"
  shows "stiffness_local L E G Ax Iz Iy Ay Az J =
    Inr (blocks L (phi_value Iz G (defaulted Ax Ay) L E) (phi_value Iy G (defaulted Ax Az) L E)
          (Ax / L * E) (J / L * G)
          (Iz / (phi_value Iz G (defaulted Ax Ay) L E + 1) / L / L * E)
          (Iy / (phi_value Iy G (defaulted Ax Az) L E + 1) / L / L * E))"
  using assms
  by (simp add: stiffness_local_def stiffness_from_factors_def shear_factors_ok base_terms_ok)

lemma stiffness_local_valid:
  assumes "0 < L" "0 < E" "0 < G" "0 < Ax" "0 \<le> Iz" "0 \<le> Iy" "0 \<le> Ay" "0 \<le> Az"
  shows "0 < defaulted Ax Ay" "0 < defaulted Ax Az"
    "0 \<le> phi_value Iz G (defaulted Ax Ay) L E" "0 \<le> phi_value Iy G (defaulted Ax Az) L E"
proof -
  show dy: "0 < defaulted Ax Ay" and dz: "0 < defaulted Ax Az"
    using assms by (auto simp add: defaulted_def)
  show "0 \<le> phi_value Iz G (defaulted Ax Ay) L E"
    using assms dy by (intro phi_value_nonneg) auto
  show "0 \<le> phi_value Iy G (defaulted Ax Az) L E"
    using assms dz by (intro phi_value_nonneg) auto
qed

lemma stiffness_local_L0: "stiffness_local 0 E G Ax Iz Iy Ay Az J = Inl ZeroDivisionError"
  by (simp add: stiffness_local_def stiffness_from_factors_def shear_factors_def base_terms_def
      pdiv_def Let_def)

lemma upt_6: "[0..<6] = [0, 1, 2, 3, 4, 5]"
  by (simp add: upt_rec)

lemma transpose_m_6:
  "transpose_m [[a0, a1, a2, a3, a4, a5], [b0, b1, b2, b3, b4, b5], [c0, c1, c2, c3, c4, c5],
                [d0, d1, d2, d3, d4, d5], [e0, e1, e2, e3, e4, e5], [f0, f1, f2, f3, f4, f5]] =
     [[a0, b0, c0, d0, e0, f0], [a1, b1, c1, d1, e1, f1], [a2, b2, c2, d2, e2, f2],
      [a3, b3, c3, d3, e3, f3], [a4, b4, c4, d4, e4, f4], [a5, b5, c5, d5, e5, f5]]"
  by (simp add: transpose_m_def ncols_def upt_6)

lemma blocks_shape:
  "\<exists>M11 M12 M21 M22. blocks L pY pZ a s kz ky = [M11, M12, M21, M22]
     \<and> transpose_m M11 = M11 \<and> transpose_m M22 = M22 \<and> M21 = transpose_m M12"
  by (simp add: blocks_def Let_def transpose_m_6)

lemma blocks_nth:
  assumes "blocks L pY pZ a s kz ky = [M11, M12, M21, M22]"
  shows "M11 = blocks L pY pZ a s kz ky ! 0" "M12 = blocks L pY pZ a s kz ky ! 1"
    "M21 = blocks L pY pZ a s kz ky ! 2" "M22 = blocks L pY pZ a s kz ky ! 3"
  using assms by simp_all

lemma stiffness_from_factors_zero_shear:
  assumes "L \<noteq> 0"
  shows "stiffness_from_factors L E G Ax Iz Iy J 0 0 = Inr
     [ [ [E * Ax / L, 0, 0, 0, 0, 0],
         [0, 12 * E * Iz / L\<^sup>2, 0, 0, 0, 6 * E * Iz / L],
         [0, 0, 12 * E * Iy / L\<^sup>2, 0, - (6 * E * Iy / L), 0],
         [0, 0, 0, G * J / L, 0, 0],
         [0, 0, - (6 * E * Iy / L), 0, 4 * E * Iy, 0],
         [0, 6 * E * Iz / L, 0, 0, 0, 4 * E * Iz] ],
       [ [- (E * Ax / L), 0, 0, 0, 0, 0],
         [0, - (12 * E * Iz / L\<^sup>2), 0, 0, 0, 6 * E * Iz / L],
         [0, 0, - (12 * E * Iy / L\<^sup>2), 0, - (6 * E * Iy / L), 0],
         [0, 0, 0, - (G * J / L), 0, 0],
         [0, 0, 6 * E * Iy / L, 0, 2 * E * Iy, 0],
         [0, - (6 * E * Iz / L), 0, 0, 0, 2 * E * Iz] ],
       [ [- (E * Ax / L), 0, 0, 0, 0, 0],
         [0, - (12 * E * Iz / L\<^sup>2), 0, 0, 0, - (6 * E * Iz / L)],
         [0, 0, - (12 * E * Iy / L\<^sup>2), 0, 6 * E * Iy / L, 0],
         [0, 0, 0, - (G * J / L), 0, 0],
         [0, 0, - (6 * E * Iy / L), 0, 2 * E * Iy, 0],
         [0, 6 * E * Iz / L, 0, 0, 0, 2 * E * Iz] ],
       [ [E * Ax / L, 0, 0, 0, 0, 0],
         [0, 12 * E * Iz / L\<^sup>2, 0, 0, 0, - (6 * E * Iz / L)],
         [0, 0, 12 * E * Iy / L\<^sup>2, 0, 6 * E * Iy / L, 0],
         [0, 0, 0, G * J / L, 0, 0],
         [0, 0, 6 * E * Iy / L, 0, 4 * E * Iy, 0],
         [0, - (6 * E * Iz / L), 0, 0, 0, 4 * E * Iz] ] ]"
proof -
  have bt: "base_terms L E G Ax Iz Iy J 0 0 =
              Inr (Ax / L * E, J / L * G, Iz / L / L * E, Iy / L / L * E)"
    using base_terms_ok [of L 0 0 E G Ax Iz Iy J] assms by simp
  show ?thesis
    using assms
    by (simp add: stiffness_from_factors_def bt blocks_def Let_def power2_eq_square mult_ac)
qed

text \<open>
  The same in the limit of a shear area growing without bound: the shear factor vanishes,
  and the first bending entry of \<open>M11\<close> tends to \<open>12 E Iz / L\<^sup>2\<close>.
\<close>

lemma phi_value_vanishes: "((\<lambda>A. phi_value I G A L E) \<longlongrightarrow> 0) at_top"
proof -
  have "((\<lambda>A :: real. (12 * I / G / L / L * E) * inverse A)
           \<longlongrightarrow> (12 * I / G / L / L * E) * 0) at_top"
    by (intro tendsto_mult tendsto_const tendsto_inverse_0_at_top filterlim_ident)
  then have "((\<lambda>A :: real. 12 * I / G / A / L / L * E) \<longlongrightarrow> 0) at_top"
    by (simp add: divide_inverse mult_ac)
  then show ?thesis
    by (cases "I = 0") (simp_all add: phi_value_def)
qed

lemma bending_entry_limit:
  assumes "0 < L" "0 < E" "0 < G" "0 < Ax" "0 \<le> Iz"
  shows "((\<lambda>Ay. case stiffness_local L E G Ax Iz 0 Ay 0 0 of
                   Inl e \<Rightarrow> 0 | Inr ms \<Rightarrow> ms ! 0 ! 1 ! 1) \<longlongrightarrow> 12 * E * Iz / L\<^sup>2) at_top"
proof -
  let ?f = "\<lambda>Ay. 12 * (Iz / (phi_value Iz G Ay L E + 1) / L / L * E)"
  have "(?f \<longlongrightarrow> 12 * (Iz / (0 + 1) / L / L * E)) at_top"
    using assms by (intro tendsto_intros phi_value_vanishes) simp_all
  then have lim: "(?f \<longlongrightarrow> 12 * E * Iz / L\<^sup>2) at_top"
    by (simp add: power2_eq_square mult_ac)
  have "eventually (\<lambda>Ay. (case stiffness_local L E G Ax Iz 0 Ay 0 0 of
                   Inl e \<Rightarrow> 0 | Inr ms \<Rightarrow> ms ! 0 ! 1 ! 1) = ?f Ay) at_top"
    using eventually_gt_at_top [of 0]
  proof eventually_elim
    case (elim Ay)
    have d: "defaulted Ax Ay = Ay" "defaulted Ax 0 = Ax"
      using elim by (simp_all add: defaulted_def)
    have p: "0 \<le> phi_value Iz G Ay L E"
      using assms elim by (intro phi_value_nonneg) simp_all
    have "stiffness_local L E G Ax Iz 0 Ay 0 0 =
      Inr (blocks L (phi_value Iz G Ay L E) (phi_value 0 G Ax L E) (Ax / L * E) (0 / L * G)
        (Iz / (phi_value Iz G Ay L E + 1) / L / L * E)
        (0 / (phi_value 0 G Ax L E + 1) / L / L * E))"
      using stiffness_local_ok [of L Iz G Ax Ay 0 0 E 0] assms elim p
      by (simp add: d phi_value_def)
    then show ?case
      by (simp add: blocks_def Let_def)
  qed
  then show ?thesis
    using lim by (simp add: tendsto_cong)
qed

text \<open>
  With \<open>Ax = 0\<close>, \<open>Ay = 0\<close> and \<open>Iz \<noteq> 0\<close> the defaulted \<^verbatim>\<open>Ay\<close> is zero and the computation of
  \<^verbatim>\<open>phiY\<close> raises, whatever the other arguments and the transform are.
\<close>

lemma stiffness_local_zero_area:
  "Iz \<noteq> 0 \<Longrightarrow> stiffness_local L E G 0 Iz Iy 0 Az J = Inl ZeroDivisionError"
  by (simp add: stiffness_local_def shear_factors_def pdiv_def)

lemma stiffness_global_zero_area:
  "tm x y z theta = Inr T \<Longrightarrow> Iz \<noteq> 0 \<Longrightarrow>
     stiffness_global tm x y z E G 0 Iz Iy 0 Az theta J = Inl ZeroDivisionError"
  by (simp add: stiffness_global_def stiffness_local_zero_area)

lemma convert_pops_shape:
  "d ''shape'' = Some v \<Longrightarrow> snd (convert d) = d(''shape'' := None)"
  by (simp add: convert_def Let_def)

lemma convert_without_shape:
  "d ''shape'' = None \<Longrightarrow> convert d = (Inl KeyError, d)"
  by (simp add: convert_def)

lemma sqrt_quarter: "sqrt (1 / 4) = 1 / 2"
  by (simp add: real_sqrt_divide)

section \<open>Facts about matrices\<close>

lemma is_matrix_length: "is_matrix n m A \<Longrightarrow> length A = n"
  by (simp add: is_matrix_def)

lemma is_matrix_row: "is_matrix n m A \<Longrightarrow> i < n \<Longrightarrow> length (A ! i) = m"
  by (simp add: is_matrix_def list_all_length)

lemma is_matrixI:
  "length A = n \<Longrightarrow> (\<And>i. i < n \<Longrightarrow> length (A ! i) = m) \<Longrightarrow> is_matrix n m A"
  by (simp add: is_matrix_def list_all_length)

lemma ncols_is_matrix: "is_matrix n m A \<Longrightarrow> 0 < n \<Longrightarrow> ncols A = m"
  by (cases A) (auto simp add: is_matrix_def ncols_def)

lemma sum_list_upt: "(\<Sum>k\<leftarrow>[0..<n]. f k) = (\<Sum>k<n. f k)"
  by (simp add: interv_sum_list_conv_sum_set_nat atLeast0LessThan)

lemma dot_is_matrix:
  assumes "is_matrix n m A" "is_matrix m p B" "0 < m"
  shows "is_matrix n p (dot A B)"
  using assms by (intro is_matrixI) (simp_all add: dot_def is_matrix_length ncols_is_matrix)

lemma dot_nth:
  assumes "is_matrix n m A" "is_matrix m p B" "0 < m" "i < n" "j < p"
  shows "dot A B ! i ! j = (\<Sum>k<m. A ! i ! k * B ! k ! j)"
  using assms by (simp add: dot_def is_matrix_length ncols_is_matrix sum_list_upt)

lemma transpose_m_is_matrix:
  assumes "is_matrix n m A" "0 < n"
  shows "is_matrix m n (transpose_m A)"
  using assms
  by (intro is_matrixI) (simp_all add: transpose_m_def is_matrix_length ncols_is_matrix)

lemma transpose_m_nth:
  assumes "is_matrix n m A" "0 < n" "i < n" "j < m"
  shows "transpose_m A ! j ! i = A ! i ! j"
  using assms by (simp add: transpose_m_def is_matrix_length ncols_is_matrix)

lemma matrix_eqI:
  assumes "is_matrix n m A" "is_matrix n m B"
    and "\<And>i j. i < n \<Longrightarrow> j < m \<Longrightarrow> A ! i ! j = B ! i ! j"
  shows "A = B"
proof (rule nth_equalityI)
  show "length A = length B"
    using assms(1,2) by (simp add: is_matrix_length)
next
  fix i assume "i < length A"
  then have i: "i < n"
    using assms(1) by (simp add: is_matrix_length)
  show "A ! i = B ! i"
    using assms i by (intro nth_equalityI) (simp_all add: is_matrix_row)
qed

lemma block_diag_is_matrix:
  assumes "is_matrix n m A" "is_matrix n m B" "0 < n"
  shows "is_matrix (n + n) (m + m) (block_diag A B)"
proof -
  have "list_all (\<lambda>r. length r = m) A" "list_all (\<lambda>r. length r = m) B"
    using assms by (simp_all add: is_matrix_def)
  then have "list_all (\<lambda>r. length r = m + m) (block_diag A B)"
    using assms by (auto simp add: block_diag_def ncols_is_matrix list_all_iff)
  then show ?thesis
    using assms by (simp add: is_matrix_def block_diag_def)
qed

lemma congruence_is_matrix:
  assumes "is_matrix n n t" "is_matrix n n m" "0 < n"
  shows "is_matrix n n (congruence t m)"
  unfolding congruence_def
  using assms by (intro dot_is_matrix [where m = n] transpose_m_is_matrix)

lemma congruence_nth:
  assumes "is_matrix n n t" "is_matrix n n m" "0 < n" "i < n" "j < n"
  shows "congruence t m ! i ! j = (\<Sum>l<n. \<Sum>k<n. t ! i ! k * m ! k ! l * t ! j ! l)"
proof -
  have tm: "is_matrix n n (dot t m)"
    using assms by (intro dot_is_matrix [where m = n])
  have tt: "is_matrix n n (transpose_m t)"
    using assms by (intro transpose_m_is_matrix)
  have "congruence t m ! i ! j = (\<Sum>l<n. dot t m ! i ! l * transpose_m t ! l ! j)"
    unfolding congruence_def using tm tt assms by (simp add: dot_nth [where m = n])
  also have "\<dots> = (\<Sum>l<n. (\<Sum>k<n. t ! i ! k * m ! k ! l) * t ! j ! l)"
    using assms
    by (intro sum.cong refl)
       (simp add: dot_nth [where m = n] transpose_m_nth [where n = n and m = n])
  also have "\<dots> = (\<Sum>l<n. \<Sum>k<n. t ! i ! k * m ! k ! l * t ! j ! l)"
    by (simp add: sum_distrib_right)
  finally show ?thesis .
qed

lemma congruence_transpose:
  assumes "is_matrix n n t" "is_matrix n n m" "0 < n" "i < n" "j < n"
  shows "congruence t (transpose_m m) ! j ! i = congruence t m ! i ! j"
proof -
  have mt: "is_matrix n n (transpose_m m)"
    using assms by (intro transpose_m_is_matrix)
  have "congruence t (transpose_m m) ! j ! i =
          (\<Sum>l<n. \<Sum>k<n. t ! j ! k * transpose_m m ! k ! l * t ! i ! l)"
    using assms mt by (simp add: congruence_nth)
  also have "\<dots> = (\<Sum>l<n. \<Sum>k<n. t ! j ! k * m ! l ! k * t ! i ! l)"
    using assms by (intro sum.cong refl) (simp add: transpose_m_nth [where n = n and m = n])
  also have "\<dots> = (\<Sum>k<n. \<Sum>l<n. t ! j ! k * m ! l ! k * t ! i ! l)"
    by (rule sum.swap)
  also have "\<dots> = (\<Sum>k<n. \<Sum>l<n. t ! i ! l * m ! l ! k * t ! j ! k)"
    by (simp add: mult_ac)
  also have "\<dots> = congruence t m ! i ! j"
    using assms by (simp add: congruence_nth)
  finally show ?thesis .
qed

lemma bilinear_congruence:
  assumes "is_matrix 6 6 t" "is_matrix 6 6 m"
  shows "bilinear (congruence t m) x y =
           bilinear m (\<lambda>k. \<Sum>i<6. x i * t ! i ! k) (\<lambda>l. \<Sum>j<6. y j * t ! j ! l)"
proof -
  have "bilinear (congruence t m) x y =
          (\<Sum>i<6. \<Sum>j<6. x i * (\<Sum>l<6. \<Sum>k<6. t ! i ! k * m ! k ! l * t ! j ! l) * y j)"
    unfolding bilinear_def using assms
    by (intro sum.cong refl) (simp add: congruence_nth [where n = 6])
  also have "\<dots> =
      (\<Sum>i<6. \<Sum>j<6. \<Sum>l<6. \<Sum>k<6. (x i * t ! i ! k) * m ! k ! l * (y j * t ! j ! l))"
    by (simp add: sum_distrib_left sum_distrib_right mult_ac)
  also have "\<dots> =
      (\<Sum>i<6. \<Sum>l<6. \<Sum>j<6. \<Sum>k<6. (x i * t ! i ! k) * m ! k ! l * (y j * t ! j ! l))"
    by (rule sum.cong [OF refl]) (rule sum.swap)
  also have "\<dots> =
      (\<Sum>i<6. \<Sum>l<6. \<Sum>k<6. \<Sum>j<6. (x i * t ! i ! k) * m ! k ! l * (y j * t ! j ! l))"
    by (rule sum.cong [OF refl], rule sum.cong [OF refl], rule sum.swap)
  also have "\<dots> =
      (\<Sum>l<6. \<Sum>i<6. \<Sum>k<6. \<Sum>j<6. (x i * t ! i ! k) * m ! k ! l * (y j * t ! j ! l))"
    by (rule sum.swap)
  also have "\<dots> =
      (\<Sum>l<6. \<Sum>k<6. \<Sum>i<6. \<Sum>j<6. (x i * t ! i ! k) * m ! k ! l * (y j * t ! j ! l))"
    by (rule sum.cong [OF refl]) (rule sum.swap)
  also have "\<dots> =
      (\<Sum>k<6. \<Sum>l<6. \<Sum>i<6. \<Sum>j<6. (x i * t ! i ! k) * m ! k ! l * (y j * t ! j ! l))"
    by (rule sum.swap)
  also have "\<dots> =
      (\<Sum>k<6. \<Sum>l<6. (\<Sum>i<6. x i * t ! i ! k) * m ! k ! l * (\<Sum>j<6. y j * t ! j ! l))"
    by (simp add: sum_distrib_left sum_distrib_right mult_ac)
  finally show ?thesis
    by (simp add: bilinear_def)
qed

lemma assemble_is_matrix:
  assumes "is_matrix 6 6 A" "is_matrix 6 6 B" "is_matrix 6 6 C" "is_matrix 6 6 D"
  shows "is_matrix 12 12 (assemble A B C D)"
proof (rule is_matrixI)
  show "length (assemble A B C D) = 12"
    using assms by (simp add: assemble_def is_matrix_length)
next
  fix i :: nat assume "i < 12"
  then show "length (assemble A B C D ! i) = 12"
    using assms by (simp add: assemble_def is_matrix_length is_matrix_row nth_append)
qed

lemma assemble_nth:
  assumes "is_matrix 6 6 A" "is_matrix 6 6 B" "is_matrix 6 6 C" "is_matrix 6 6 D"
    and "i < 12" "j < 12"
  shows "assemble A B C D ! i ! j =
           (if i < 6 then (if j < 6 then A ! i ! j else B ! i ! (j - 6))
            else (if j < 6 then C ! (i - 6) ! j else D ! (i - 6) ! (j - 6)))"
  using assms by (simp add: assemble_def is_matrix_length is_matrix_row nth_append)

lemma sum_12_split: "(\<Sum>i<12. f i) = (\<Sum>i<6. f i) + (\<Sum>i<6. f (i + 6))"
  for f :: "nat \<Rightarrow> real"
  by (simp add: eval_nat_numeral)

lemma sum_6: "(\<Sum>i<6. f i) = f 0 + f 1 + f 2 + f 3 + f 4 + f (5::nat)"
  for f :: "nat \<Rightarrow> real"
  by (simp add: eval_nat_numeral)

lemma quad_form_assemble:
  assumes "is_matrix 6 6 A" "is_matrix 6 6 B" "is_matrix 6 6 C" "is_matrix 6 6 D"
    and "length v = 12"
  shows "quad_form (assemble A B C D) v =
           bilinear A (\<lambda>i. v ! i) (\<lambda>i. v ! i) + bilinear B (\<lambda>i. v ! i) (\<lambda>i. v ! (i + 6))
         + bilinear C (\<lambda>i. v ! (i + 6)) (\<lambda>i. v ! i)
         + bilinear D (\<lambda>i. v ! (i + 6)) (\<lambda>i. v ! (i + 6))"
proof -
  have "quad_form (assemble A B C D) v =
          (\<Sum>i<12. \<Sum>j<12. v ! i * assemble A B C D ! i ! j * v ! j)"
    using assms(5) by (simp add: quad_form_def sum_list_upt)
  also have "\<dots> = (\<Sum>i<12. \<Sum>j<12. v ! i *
           (if i < 6 then (if j < 6 then A ! i ! j else B ! i ! (j - 6))
            else (if j < 6 then C ! (i - 6) ! j else D ! (i - 6) ! (j - 6))) * v ! j)"
    using assms(1-4) by (intro sum.cong refl) (simp add: assemble_nth)
  also have "\<dots> =
           bilinear A (\<lambda>i. v ! i) (\<lambda>i. v ! i) + bilinear B (\<lambda>i. v ! i) (\<lambda>i. v ! (i + 6))
         + bilinear C (\<lambda>i. v ! (i + 6)) (\<lambda>i. v ! i)
         + bilinear D (\<lambda>i. v ! (i + 6)) (\<lambda>i. v ! (i + 6))"
    by (simp add: sum_12_split bilinear_def sum.distrib)
  finally show ?thesis .
qed

text \<open>
  The quadratic form of the local element matrix is a sum of squares: one for the axial
  and one for the torsional stiffness, two for each bending plane.
\<close>

lemma bilinear_blocks:
  assumes "blocks L pY pZ a s kz ky = [M11, M12, M21, M22]"
  shows "bilinear M11 p p + bilinear M12 p q + bilinear M21 q p + bilinear M22 q q =
           a * (p 0 - q 0)\<^sup>2 + s * (p 3 - q 3)\<^sup>2
         + kz * (3 * (2 * (p 1 - q 1) + L * (p 5 + q 5))\<^sup>2 + (1 + pY) * L\<^sup>2 * (p 5 - q 5)\<^sup>2)
         + ky * (3 * (2 * (p 2 - q 2) - L * (p 4 + q 4))\<^sup>2 + (1 + pZ) * L\<^sup>2 * (p 4 - q 4)\<^sup>2)"
  unfolding blocks_nth [OF assms] bilinear_def blocks_def Let_def sum_6
  by (simp add: power2_eq_square algebra_simps)

lemma blocks_nonneg:
  assumes "blocks L pY pZ a s kz ky = [M11, M12, M21, M22]"
    and "0 \<le> a" "0 \<le> s" "0 \<le> kz" "0 \<le> ky" "0 \<le> pY" "0 \<le> pZ"
  shows "0 \<le> bilinear M11 p p + bilinear M12 p q + bilinear M21 q p + bilinear M22 q q"
  unfolding bilinear_blocks [OF assms(1)]
  using assms(2-) by (intro add_nonneg_nonneg mult_nonneg_nonneg) simp_all

lemma blocks_is_matrix:
  assumes "blocks L pY pZ a s kz ky = [M11, M12, M21, M22]"
  shows "is_matrix 6 6 M11" "is_matrix 6 6 M12" "is_matrix 6 6 M21" "is_matrix 6 6 M22"
  unfolding blocks_nth [OF assms]
  by (simp_all add: blocks_def Let_def is_matrix_def)

lemma norm3_pos:
  assumes "(x, y, z) \<noteq> (0, 0, 0)"
  shows "0 < norm3 x y z"
proof -
  have "x \<noteq> 0 \<or> y \<noteq> 0 \<or> z \<noteq> 0"
    using assms by simp
  then have "0 < x * x + y * y + z * z"
    using sum_power2_gt_zero_iff [of x y] sum_power2_gt_zero_iff [of x z]
      sum_power2_gt_zero_iff [of y z] zero_le_square [of x] zero_le_square [of y]
      zero_le_square [of z]
    by (auto simp add: power2_eq_square)
  then show ?thesis
    by (simp add: norm3_def)
qed

lemma assemble_symmetric:
  assumes t: "is_matrix 6 6 t"
    and M: "is_matrix 6 6 M11" "is_matrix 6 6 M12" "is_matrix 6 6 M21" "is_matrix 6 6 M22"
    and s: "transpose_m M11 = M11" "transpose_m M22 = M22" "M21 = transpose_m M12"
  shows "symmetric (assemble (congruence t M11) (congruence t M12)
                             (congruence t M21) (congruence t M22))"
proof -
  let ?K = "assemble (congruence t M11) (congruence t M12) (congruence t M21) (congruence t M22)"
  have G: "is_matrix 6 6 (congruence t M11)" "is_matrix 6 6 (congruence t M12)"
          "is_matrix 6 6 (congruence t M21)" "is_matrix 6 6 (congruence t M22)"
    using t M by (simp_all add: congruence_is_matrix)
  have K: "is_matrix 12 12 ?K"
    using G by (rule assemble_is_matrix)
  have s11: "congruence t M11 ! j ! i = congruence t M11 ! i ! j" if "i < 6" "j < 6" for i j
    using congruence_transpose [of 6 t M11 i j] t M that by (simp add: s)
  have s22: "congruence t M22 ! j ! i = congruence t M22 ! i ! j" if "i < 6" "j < 6" for i j
    using congruence_transpose [of 6 t M22 i j] t M that by (simp add: s)
  have s12: "congruence t M21 ! j ! i = congruence t M12 ! i ! j" if "i < 6" "j < 6" for i j
    using congruence_transpose [of 6 t M12 i j] t M that by (simp add: s)
  have "transpose_m ?K = ?K"
  proof (rule matrix_eqI [where n = 12 and m = 12])
    show "is_matrix 12 12 (transpose_m ?K)"
      using K by (intro transpose_m_is_matrix) simp_all
    show "is_matrix 12 12 ?K"
      by (rule K)
  next
    fix i j :: nat assume ij: "i < 12" "j < 12"
    have "transpose_m ?K ! i ! j = ?K ! j ! i"
      using K ij by (simp add: transpose_m_nth [where n = 12 and m = 12])
    also have "\<dots> = ?K ! i ! j"
      using ij s11 s22 s12 by (simp add: assemble_nth [OF G])
    finally show "transpose_m ?K ! i ! j = ?K ! i ! j" .
  qed
  then show ?thesis
    by (simp add: symmetric_def)
qed

lemma assemble_psd:
  assumes t: "is_matrix 6 6 t"
    and b: "blocks L pY pZ a s kz ky = [M11, M12, M21, M22]"
    and nn: "0 \<le> a" "0 \<le> s" "0 \<le> kz" "0 \<le> ky" "0 \<le> pY" "0 \<le> pZ"
  shows "positive_semidefinite (assemble (congruence t M11) (congruence t M12)
                             (congruence t M21) (congruence t M22))"
proof -
  let ?K = "assemble (congruence t M11) (congruence t M12) (congruence t M21) (congruence t M22)"
  note M = blocks_is_matrix [OF b]
  have G: "is_matrix 6 6 (congruence t M11)" "is_matrix 6 6 (congruence t M12)"
          "is_matrix 6 6 (congruence t M21)" "is_matrix 6 6 (congruence t M22)"
    using t M by (simp_all add: congruence_is_matrix)
  have K: "length ?K = 12"
    using assemble_is_matrix [OF G] by (rule is_matrix_length)
  have "0 \<le> quad_form ?K v" if v: "length v = 12" for v
  proof -
    let ?p = "\<lambda>k. \<Sum>i<6. v ! i * t ! i ! k"
    let ?q = "\<lambda>k. \<Sum>i<6. v ! (i + 6) * t ! i ! k"
    have "quad_form ?K v = bilinear M11 ?p ?p + bilinear M12 ?p ?q
                         + bilinear M21 ?q ?p + bilinear M22 ?q ?q"
      by (simp add: quad_form_assemble [OF G v] bilinear_congruence [OF t] M)
    then show ?thesis
      using blocks_nonneg [OF b nn, of ?p ?q] by simp
  qed
  then show ?thesis
    by (simp add: positive_semidefinite_def K)
qed

section \<open>The claims\<close>

subsection \<open>C1: the assembled global matrix\<close>

text \<open>
  C1 as stated asks only for non-negative section coefficients. With \<open>Ax = 0\<close>, \<open>Ay = 0\<close>
  and \<open>Iz = 1\<close> every stated condition holds, the defaulted \<^verbatim>\<open>Ay\<close> is zero, and the division
  in \<^verbatim>\<open>phiY\<close> raises: no block is yielded (lemma \<open>stiffness_global_zero_area\<close>).
\<close>

theorem stiffness_global_psd_counterexample:
  "(0::real) < 1 \<and> (1::real, 0::real, 0::real) \<noteq> (0, 0, 0) \<and> (0::real) \<le> 0 \<and> (0::real) \<le> 1
   \<and> axis_transform 1 0 0 0 = Inr [[1, 0, 0], [0, 1, 0], [0, 0, 1]]
   \<and> stiffness_global axis_transform 1 0 0 1 1 0 1 0 0 0 0 0 = Inl ZeroDivisionError"
  by (simp add: stiffness_global_def axis_transform_def norm3_def stiffness_local_def
        shear_factors_def pdiv_def)

text \<open>
  C1, amended: for \<open>E > 0\<close>, \<open>G > 0\<close>, a non-zero direction, non-negative \<open>Ax\<close>, \<open>Iz\<close>, \<open>Iy\<close>,
  \<open>Ay\<close>, \<open>Az\<close>, \<open>J\<close>, and moreover \<open>Ax\<close> and \<open>Ay\<close> not both zero when \<open>Iz \<noteq> 0\<close> and \<open>Ax\<close> and
  \<open>Az\<close> not both zero when \<open>Iy \<noteq> 0\<close>, and for every 3 by 3 matrix that \<^verbatim>\<open>transformMatrix\<close>
  returns, \<^verbatim>\<open>stiffness_global\<close> yields four blocks, and the 12 by 12 matrix
  \<open>[[G11, G12], [G21, G22]]\<close> assembled from them in yield order is symmetric and positive
  semidefinite.
\<close>

theorem stiffness_global_symmetric_psd:
  assumes "0 < E" "0 < G" "(x, y, z) \<noteq> (0, 0, 0)"
    and "0 \<le> Ax" "0 \<le> Iz" "0 \<le> Iy" "0 \<le> Ay" "0 \<le> Az" "0 \<le> J"
    and "Iz \<noteq> 0 \<longrightarrow> 0 < Ax \<or> 0 < Ay"
    and "Iy \<noteq> 0 \<longrightarrow> 0 < Ax \<or> 0 < Az"
    and "tm x y z theta = Inr T" "is_matrix 3 3 T"
  shows "\<exists>G11 G12 G21 G22.
           stiffness_global tm x y z E G Ax Iz Iy Ay Az theta J = Inr [G11, G12, G21, G22]
         \<and> symmetric (assemble G11 G12 G21 G22)
         \<and> positive_semidefinite (assemble G11 G12 G21 G22)"
proof -
  let ?L = "norm3 x y z"
  let ?pY = "phi_value Iz G (defaulted Ax Ay) ?L E"
  let ?pZ = "phi_value Iy G (defaulted Ax Az) ?L E"
  let ?a = "Ax / ?L * E" and ?s = "J / ?L * G"
  let ?kz = "Iz / (?pY + 1) / ?L / ?L * E" and ?ky = "Iy / (?pZ + 1) / ?L / ?L * E"
  have L: "0 < ?L"
    using assms(3) by (rule norm3_pos)
  have d: "0 \<le> defaulted Ax Ay" "0 \<le> defaulted Ax Az"
    using assms by (simp_all add: defaulted_def)
  have dy: "defaulted Ax Ay \<noteq> 0" if "Iz \<noteq> 0"
    using that assms by (auto simp add: defaulted_def)
  have dz: "defaulted Ax Az \<noteq> 0" if "Iy \<noteq> 0"
    using that assms by (auto simp add: defaulted_def)
  have py: "0 \<le> ?pY"
    using L assms d by (intro phi_value_nonneg) simp_all
  have pz: "0 \<le> ?pZ"
    using L assms d by (intro phi_value_nonneg) simp_all
  have loc: "stiffness_local ?L E G Ax Iz Iy Ay Az J = Inr (blocks ?L ?pY ?pZ ?a ?s ?kz ?ky)"
    using L assms(2) dy dz py pz by (intro stiffness_local_ok) auto
  obtain M11 M12 M21 M22 where b: "blocks ?L ?pY ?pZ ?a ?s ?kz ?ky = [M11, M12, M21, M22]"
    and sym: "transpose_m M11 = M11" "transpose_m M22 = M22" "M21 = transpose_m M12"
    using blocks_shape by blast
  note M = blocks_is_matrix [OF b]
  let ?t = "block_diag T T"
  have t: "is_matrix 6 6 ?t"
    using block_diag_is_matrix [OF assms(13) assms(13)] by simp
  have nn: "0 \<le> ?a" "0 \<le> ?s" "0 \<le> ?kz" "0 \<le> ?ky"
    using L assms py pz by simp_all
  have glob: "stiffness_global tm x y z E G Ax Iz Iy Ay Az theta J =
      Inr [congruence ?t M11, congruence ?t M12, congruence ?t M21, congruence ?t M22]"
    unfolding stiffness_global_def assms(12) and_then_Inr Let_def loc b congruence_def
    by simp
  have "symmetric (assemble (congruence ?t M11) (congruence ?t M12)
                            (congruence ?t M21) (congruence ?t M22))"
    using t M sym by (rule assemble_symmetric)
  moreover have "positive_semidefinite (assemble (congruence ?t M11) (congruence ?t M12)
                            (congruence ?t M21) (congruence ?t M22))"
    using t b nn py pz by (rule assemble_psd)
  ultimately show ?thesis
    using glob by blast
qed

theorem stiffness_global_symmetric_psd_witness:
  "\<exists>G11 G12 G21 G22.
      stiffness_global axis_transform 3 0 0 2 1 4 5 0 0 6 0 7 = Inr [G11, G12, G21, G22]
    \<and> symmetric (assemble G11 G12 G21 G22)
    \<and> positive_semidefinite (assemble G11 G12 G21 G22)"
  using stiffness_global_symmetric_psd [where tm = axis_transform and x = 3 and y = 0 and z = 0
      and theta = 0 and E = 2 and G = 1 and Ax = 4 and Iz = 5 and Iy = 0 and Ay = 0 and Az = 6
      and J = 7 and T = "[[1, 0, 0], [0, 1, 0], [0, 0, 1]]"]
  by (simp add: axis_transform_def is_matrix_def)

subsection \<open>C2: symmetry of the local blocks\<close>

text \<open>
  C2: for \<open>L > 0\<close>, \<open>E > 0\<close>, \<open>G > 0\<close>, \<open>Ax > 0\<close> and \<open>Iz\<close>, \<open>Iy\<close>, \<open>Ay\<close>, \<open>Az\<close>, \<open>J\<close>
  non-negative, \<^verbatim>\<open>stiffness_local\<close> yields four matrices \<open>M11\<close>, \<open>M12\<close>, \<open>M21\<close>, \<open>M22\<close>
  with \<open>M11\<close> and \<open>M22\<close> symmetric and \<open>M21\<close> the transpose of \<open>M12\<close>, exactly.
\<close>

theorem stiffness_local_symmetry:
  assumes "0 < L" "0 < E" "0 < G" "0 < Ax" "0 \<le> Iz" "0 \<le> Iy" "0 \<le> Ay" "0 \<le> Az" "0 \<le> J"
  shows "\<exists>M11 M12 M21 M22.
           stiffness_local L E G Ax Iz Iy Ay Az J = Inr [M11, M12, M21, M22]
         \<and> transpose_m M11 = M11 \<and> transpose_m M22 = M22 \<and> M21 = transpose_m M12"
proof -
  note v = stiffness_local_valid [OF assms(1-8)]
  have "stiffness_local L E G Ax Iz Iy Ay Az J =
    Inr (blocks L (phi_value Iz G (defaulted Ax Ay) L E) (phi_value Iy G (defaulted Ax Az) L E)
          (Ax / L * E) (J / L * G)
          (Iz / (phi_value Iz G (defaulted Ax Ay) L E + 1) / L / L * E)
          (Iy / (phi_value Iy G (defaulted Ax Az) L E + 1) / L / L * E))"
    using assms v by (intro stiffness_local_ok) auto
  then show ?thesis
    using blocks_shape by simp
qed

theorem stiffness_local_symmetry_witness:
  "\<exists>M11 M12 M21 M22.
      stiffness_local 3 2 1 4 5 0 0 6 7 = Inr [M11, M12, M21, M22]
    \<and> transpose_m M11 = M11 \<and> transpose_m M22 = M22 \<and> M21 = transpose_m M12"
  using stiffness_local_symmetry [of 3 2 1 4 5 0 0 6 7] by simp

subsection \<open>C3: the coefficients\<close>

text \<open>
  C3 as stated constrains only \<open>L\<close>, \<open>G\<close> and the defaulted shear areas. With \<open>E = -1\<close>,
  \<open>Iz = 1\<close>, \<open>Ay = 12\<close> and \<open>L = G = 1\<close> the shear factor \<^verbatim>\<open>phiY\<close> is \<open>-1\<close>, so the divisor
  \<^verbatim>\<open>phiY + 1\<close> of \<^verbatim>\<open>kzPre\<close> is zero and the code raises instead of computing \<^verbatim>\<open>kzPre\<close>.
\<close>

theorem stiffness_local_coefficients_counterexample:
  "(0::real) < 1 \<and> (12::real) \<noteq> 0
   \<and> shear_factors 1 (- 1) 1 12 1 0 12 0 = Inr (- 1, 0)
   \<and> base_terms 1 (- 1) 1 12 1 0 0 (- 1) 0 = Inl ZeroDivisionError
   \<and> stiffness_local 1 (- 1) 1 12 1 0 12 0 0 = Inl ZeroDivisionError"
  by (simp add: shear_factors_def base_terms_def stiffness_local_def stiffness_from_factors_def
        pdiv_def Let_def)

text \<open>
  C3, amended: for \<open>L > 0\<close>, \<open>G > 0\<close>, \<open>Ay\<close> and \<open>Az\<close> non-zero after defaulting, and neither
  shear factor equal to \<open>-1\<close>, \<^verbatim>\<open>stiffness_local\<close> computes
  \<open>phiY = 12 E Iz / (G Ay L\<^sup>2)\<close> when \<open>Iz \<noteq> 0\<close> and \<open>0\<close> otherwise, \<open>phiZ\<close> likewise from \<open>Iy\<close>
  and \<open>Az\<close>, \<open>a = E Ax / L\<close>, \<open>s = G J / L\<close>, \<open>kzPre = E Iz / ((phiY + 1) L\<^sup>2)\<close> and
  \<open>kyPre = E Iy / ((phiZ + 1) L\<^sup>2)\<close>, and yields the blocks built from these.
\<close>

theorem stiffness_local_coefficients:
  fixes L E G Ax Iz Iy Ay Az J :: real
  assumes "Ay' = (if Ay = 0 then Ax else Ay)"
    and "Az' = (if Az = 0 then Ax else Az)"
    and "phiY = (if Iz \<noteq> 0 then 12 * E * Iz / (G * Ay' * L\<^sup>2) else 0)"
    and "phiZ = (if Iy \<noteq> 0 then 12 * E * Iy / (G * Az' * L\<^sup>2) else 0)"
    and "0 < L" "0 < G" "Ay' \<noteq> 0" "Az' \<noteq> 0" "phiY \<noteq> - 1" "phiZ \<noteq> - 1"
  shows "shear_factors L E G Ax Iz Iy Ay Az = Inr (phiY, phiZ)
       \<and> base_terms L E G Ax Iz Iy J phiY phiZ =
           Inr (E * Ax / L, G * J / L, E * Iz / ((phiY + 1) * L\<^sup>2), E * Iy / ((phiZ + 1) * L\<^sup>2))
       \<and> stiffness_local L E G Ax Iz Iy Ay Az J =
           Inr (blocks L phiY phiZ (E * Ax / L) (G * J / L)
                  (E * Iz / ((phiY + 1) * L\<^sup>2)) (E * Iy / ((phiZ + 1) * L\<^sup>2)))"
proof -
  have d: "defaulted Ax Ay = Ay'" "defaulted Ax Az = Az'"
    using assms(1,2) by (simp_all add: defaulted_def)
  have p: "phi_value Iz G Ay' L E = phiY" "phi_value Iy G Az' L E = phiZ"
    using assms(3,4) by (simp_all add: phi_value_spec)
  have nz: "phiY + 1 \<noteq> 0" "phiZ + 1 \<noteq> 0"
    using assms(9,10) by linarith+
  have sf: "shear_factors L E G Ax Iz Iy Ay Az = Inr (phiY, phiZ)"
    using shear_factors_ok [of L Iz G Ax Ay Iy Az E] assms(5-8) by (simp add: d p)
  have bt: "base_terms L E G Ax Iz Iy J phiY phiZ =
      Inr (E * Ax / L, G * J / L, E * Iz / ((phiY + 1) * L\<^sup>2), E * Iy / ((phiZ + 1) * L\<^sup>2))"
    using base_terms_ok [of L phiY phiZ E G Ax Iz Iy J] assms(5) nz
    by (simp add: power2_eq_square mult_ac)
  show ?thesis
    using sf bt by (simp add: stiffness_local_def stiffness_from_factors_def)
qed

theorem stiffness_local_coefficients_witness:
  "shear_factors 3 2 1 4 5 0 0 6 = Inr (10 / 3, 0)
   \<and> base_terms 3 2 1 4 5 0 7 (10 / 3) 0 = Inr (8 / 3, 7 / 3, 10 / 39, 0)
   \<and> stiffness_local 3 2 1 4 5 0 0 6 7 = Inr (blocks 3 (10 / 3) 0 (8 / 3) (7 / 3) (10 / 39) 0)"
  using stiffness_local_coefficients [where Ay' = 4 and Ay = 0 and Ax = 4 and Az' = 6
      and Az = 6 and phiY = "10 / 3" and Iz = 5 and E = 2 and G = 1 and L = 3 and phiZ = 0
      and Iy = 0 and J = 7]
  by simp

subsection \<open>C4: the Euler-Bernoulli limit\<close>

text \<open>
  C4: with vanishing shear factors the bending entries should be the classical
  \<open>12 E Iz / L\<^sup>3\<close>, \<open>6 E Iz / L\<^sup>2\<close>, \<open>4 E Iz / L\<close> and \<open>2 E Iz / L\<close>. The code's \<^verbatim>\<open>kzPre\<close> divides
  by \<open>L\<^sup>2\<close> where the stencil needs \<open>L\<^sup>3\<close>, so each bending entry is \<open>L\<close> times the classical
  one (lemma \<open>stiffness_from_factors_zero_shear\<close> gives the blocks at \<open>phiY = phiZ = 0\<close>,
  lemma \<open>bending_entry_limit\<close> the limit of the first entry as \<open>Ay\<close> grows).
  At \<open>L = 2\<close>, \<open>E = G = Ax = Iz = 1\<close>, \<open>Ay = 3000000\<close> the shear factor is \<open>10\<^sup>-\<^sup>6\<close> and the
  four entries are within \<open>10\<^sup>-\<^sup>5\<close> of \<open>3\<close>, \<open>3\<close>, \<open>4\<close> and \<open>2\<close>, where the classical values are
  \<open>3/2\<close>, \<open>3/2\<close>, \<open>2\<close> and \<open>1\<close>.
\<close>

theorem euler_bernoulli_limit_fails:
  "stiffness_local 2 1 1 1 1 0 3000000 0 0 =
     Inr (blocks 2 (1 / 1000000) 0 (1 / 2) 0 (250000 / 1000001) 0)
   \<and> blocks 2 (1 / 1000000) 0 (1 / 2) 0 (250000 / 1000001) 0 ! 0 ! 1 ! 1 = 3000000 / 1000001
   \<and> blocks 2 (1 / 1000000) 0 (1 / 2) 0 (250000 / 1000001) 0 ! 0 ! 1 ! 5 = 3000000 / 1000001
   \<and> blocks 2 (1 / 1000000) 0 (1 / 2) 0 (250000 / 1000001) 0 ! 0 ! 5 ! 5 = 4000001 / 1000001
   \<and> blocks 2 (1 / 1000000) 0 (1 / 2) 0 (250000 / 1000001) 0 ! 1 ! 5 ! 5 = 1999999 / 1000001
   \<and> (12 * 1 * 1 / 2 ^ 3 :: real) = 3 / 2 \<and> (6 * 1 * 1 / 2\<^sup>2 :: real) = 3 / 2
   \<and> (4 * 1 * 1 / 2 :: real) = 2 \<and> (2 * 1 * 1 / 2 :: real) = 1"
  by (simp add: stiffness_local_def stiffness_from_factors_def shear_factors_def base_terms_def
        pdiv_def Let_def blocks_def)

subsection \<open>C5: defaulting of the shear areas\<close>

text \<open>
  C5: a call of \<^verbatim>\<open>stiffness_local\<close> with \<open>Ay = 0\<close> behaves as the call with \<open>Ax\<close> in its
  place, and likewise for \<open>Az\<close>; non-zero \<open>Ay\<close> and \<open>Az\<close> are used as they are, so that
  \<open>Ax\<close> then has no part in the shear factors.
\<close>

theorem stiffness_local_defaulting:
  "stiffness_local L E G Ax Iz Iy Ay Az J =
     stiffness_local L E G Ax Iz Iy (if Ay = 0 then Ax else Ay) (if Az = 0 then Ax else Az) J
   \<and> shear_factors L E G Ax Iz Iy Ay Az =
       shear_factors L E G Ax Iz Iy (if Ay = 0 then Ax else Ay) (if Az = 0 then Ax else Az)
   \<and> (Ay \<noteq> 0 \<and> Az \<noteq> 0 \<longrightarrow>
        shear_factors L E G Ax Iz Iy Ay Az = shear_factors L E G Ax' Iz Iy Ay Az)"
  by (simp add: stiffness_local_def shear_factors_def)

theorem stiffness_local_defaulting_witness:
  "stiffness_local 3 2 1 4 5 1 0 0 7 = stiffness_local 3 2 1 4 5 1 4 4 7
   \<and> shear_factors 3 2 1 4 5 1 2 6 = shear_factors 3 2 1 9 5 1 2 6"
  using stiffness_local_defaulting [of 3 2 1 4 5 1 0 0 7 9]
        stiffness_local_defaulting [of 3 2 1 4 5 1 2 6 7 9]
  by simp

subsection \<open>C6: validation of the inputs\<close>

text \<open>
  C6 as stated has \<^verbatim>\<open>stiffness_local\<close> reject non-positive \<open>L\<close>, \<open>E\<close>, \<open>G\<close> and negative
  section coefficients. The function checks nothing: with \<open>L = E = G = -1\<close>, \<open>Ax = 1\<close>,
  \<open>Iz = -1\<close> and \<open>J = -1\<close> it yields four matrices.
\<close>

theorem stiffness_local_validation_counterexample:
  "(- 1 :: real) \<le> 0 \<and> (- 1 :: real) < 0
   \<and> stiffness_local (- 1) (- 1) (- 1) 1 (- 1) 0 0 0 (- 1) =
       Inr (blocks (- 1) (- 12) 0 1 (- 1) (- (1 / 11)) 0)"
  by (simp add: stiffness_local_def stiffness_from_factors_def shear_factors_def base_terms_def
        pdiv_def Let_def)

text \<open>
  C6, amended: \<^verbatim>\<open>stiffness_local\<close> validates none of its inputs. The only error it signals
  is the division by zero, before any matrix is yielded, and it signals it exactly when a
  divisor is zero: \<open>L = 0\<close>; or \<open>Iz \<noteq> 0\<close> and one of \<open>G = 0\<close>, defaulted \<open>Ay = 0\<close>,
  \<open>phiY = -1\<close>; or \<open>Iy \<noteq> 0\<close> and one of \<open>G = 0\<close>, defaulted \<open>Az = 0\<close>, \<open>phiZ = -1\<close>. On every
  other input, negative values included, it yields the four matrices.
\<close>

theorem stiffness_local_errors:
  fixes L E G Ax Iz Iy Ay Az J :: real
  assumes "Ay' = (if Ay = 0 then Ax else Ay)"
    and "Az' = (if Az = 0 then Ax else Az)"
  shows "if L = 0
          \<or> Iz \<noteq> 0 \<and> (G = 0 \<or> Ay' = 0 \<or> 12 * E * Iz / (G * Ay' * L\<^sup>2) = - 1)
          \<or> Iy \<noteq> 0 \<and> (G = 0 \<or> Az' = 0 \<or> 12 * E * Iy / (G * Az' * L\<^sup>2) = - 1)
         then stiffness_local L E G Ax Iz Iy Ay Az J = Inl ZeroDivisionError
         else \<exists>M11 M12 M21 M22.
                stiffness_local L E G Ax Iz Iy Ay Az J = Inr [M11, M12, M21, M22]"
proof -
  have d: "defaulted Ax Ay = Ay'" "defaulted Ax Az = Az'"
    using assms by (simp_all add: defaulted_def)
  let ?pY = "phi_value Iz G Ay' L E" and ?pZ = "phi_value Iy G Az' L E"
  consider (L0) "L = 0"
    | (sf) "L \<noteq> 0" "Iz \<noteq> 0 \<and> (G = 0 \<or> Ay' = 0) \<or> Iy \<noteq> 0 \<and> (G = 0 \<or> Az' = 0)"
    | (bt) "L \<noteq> 0" "\<not> (Iz \<noteq> 0 \<and> (G = 0 \<or> Ay' = 0) \<or> Iy \<noteq> 0 \<and> (G = 0 \<or> Az' = 0))"
           "?pY + 1 = 0 \<or> ?pZ + 1 = 0"
    | (ok) "L \<noteq> 0" "\<not> (Iz \<noteq> 0 \<and> (G = 0 \<or> Ay' = 0) \<or> Iy \<noteq> 0 \<and> (G = 0 \<or> Az' = 0))"
           "?pY + 1 \<noteq> 0" "?pZ + 1 \<noteq> 0"
    by blast
  then show ?thesis
  proof cases
    case L0
    then show ?thesis
      by (simp add: stiffness_local_L0)
  next
    case sf
    then have "shear_factors L E G Ax Iz Iy Ay Az = Inl ZeroDivisionError"
      by (intro shear_factors_fail) (simp add: d)
    then show ?thesis
      using sf by (auto simp add: stiffness_local_def)
  next
    case bt
    have "shear_factors L E G Ax Iz Iy Ay Az = Inr (?pY, ?pZ)"
      using shear_factors_ok [of L Iz G Ax Ay Iy Az E] bt(1,2) by (auto simp add: d)
    moreover have "base_terms L E G Ax Iz Iy J ?pY ?pZ = Inl ZeroDivisionError"
      using bt(3) by (rule base_terms_fail)
    ultimately have "stiffness_local L E G Ax Iz Iy Ay Az J = Inl ZeroDivisionError"
      by (simp add: stiffness_local_def stiffness_from_factors_def)
    moreover have "Iz \<noteq> 0 \<and> 12 * E * Iz / (G * Ay' * L\<^sup>2) = - 1
                 \<or> Iy \<noteq> 0 \<and> 12 * E * Iy / (G * Az' * L\<^sup>2) = - 1"
      using bt(3) by (auto simp add: phi_value_spec split: if_splits)
    ultimately show ?thesis
      by auto
  next
    case ok
    have "stiffness_local L E G Ax Iz Iy Ay Az J =
      Inr (blocks L ?pY ?pZ (Ax / L * E) (J / L * G)
          (Iz / (?pY + 1) / L / L * E) (Iy / (?pZ + 1) / L / L * E))"
      using stiffness_local_ok [of L Iz G Ax Ay Iy Az E J] ok by (auto simp add: d)
    then have ex: "\<exists>M11 M12 M21 M22.
        stiffness_local L E G Ax Iz Iy Ay Az J = Inr [M11, M12, M21, M22]"
      using blocks_shape by metis
    have "\<not> (Iz \<noteq> 0 \<and> 12 * E * Iz / (G * Ay' * L\<^sup>2) = - 1)"
      "\<not> (Iy \<noteq> 0 \<and> 12 * E * Iy / (G * Az' * L\<^sup>2) = - 1)"
      using ok(3,4) by (auto simp add: phi_value_spec split: if_splits)
    then show ?thesis
      using ok(1,2) ex by auto
  qed
qed

theorem stiffness_local_errors_witness:
  "stiffness_local 0 1 1 1 0 0 0 0 0 = Inl ZeroDivisionError
   \<and> (\<exists>M11 M12 M21 M22.
        stiffness_local (- 1) (- 1) (- 1) 1 (- 1) 0 0 0 (- 1) = Inr [M11, M12, M21, M22])"
  using stiffness_local_errors [where Ay' = 1 and Ay = 0 and Ax = 1 and Az' = 1 and Az = 0
          and L = 0 and E = 1 and G = 1 and Iz = 0 and Iy = 0 and J = 0]
        stiffness_local_errors [where Ay' = 1 and Ay = 0 and Ax = 1 and Az' = 1 and Az = 0
          and L = "- 1" and E = "- 1" and G = "- 1" and Iz = "- 1" and Iy = 0 and J = "- 1"]
  by simp

subsection \<open>C7: the zero direction\<close>

text \<open>
  C7: for the zero direction vector \<^verbatim>\<open>stiffness_global\<close> signals the invalid-geometry
  error and yields no matrix. The error is that of \<open>transformMatrix\<close>, whose call is the
  first thing \<^verbatim>\<open>stiffness_global\<close> does; \<^verbatim>\<open>stiffness_global\<close> has no check of its own.
\<close>

theorem stiffness_global_zero_direction:
  "stiffness_global (transformMatrix build) 0 0 0 E G Ax Iz Iy Ay Az theta J =
     Inl InvalidGeometry"
  by (simp add: stiffness_global_def transformMatrix_def)

subsection \<open>C8: unknown shape tags\<close>

text \<open>
  C8 as stated has \<^verbatim>\<open>convert\<close> signal an error for an unrecognised shape. For the tag
  \<^verbatim>\<open>'X'\<close> no branch of the chain is taken and the call returns \<^verbatim>\<open>None\<close>.
\<close>

theorem convert_unknown_shape_counterexample:
  "convert [''shape'' \<mapsto> Str ''X''] = (Inr None, Map.empty)
   \<and> properties (Str ''X'') Map.empty = Inr None"
  by (simp add: convert_def properties_def)

text \<open>
  C8, amended: for every dictionary whose \<^verbatim>\<open>'shape'\<close> value is none of \<^verbatim>\<open>'H'\<close>, \<^verbatim>\<open>'T'\<close>,
  \<^verbatim>\<open>'I'\<close>, \<^verbatim>\<open>'O'\<close>, \<^verbatim>\<open>'C'\<close>, \<^verbatim>\<open>'R'\<close>, \<^verbatim>\<open>convert\<close>, and hence \<^verbatim>\<open>properties\<close>, raises nothing
  and returns \<^verbatim>\<open>None\<close>.
\<close>

theorem convert_unknown_shape:
  assumes "d ''shape'' = Some v"
    and "v \<notin> {Str ''H'', Str ''T'', Str ''I'', Str ''O'', Str ''C'', Str ''R''}"
  shows "fst (convert d) = Inr None \<and> properties v kw = Inr None"
  using assms by (simp add: convert_def properties_def)

theorem convert_unknown_shape_witness:
  "fst (convert [''shape'' \<mapsto> Str ''X'', ''D'' \<mapsto> Num 2]) = Inr None
   \<and> properties (Str ''X'') [''D'' \<mapsto> Num 2] = Inr None"
  using convert_unknown_shape [of "[''shape'' \<mapsto> Str ''X'', ''D'' \<mapsto> Num 2]" "Str ''X''"
      "[''D'' \<mapsto> Num 2]"]
  by simp

subsection \<open>C9: the argument dictionary\<close>

text \<open>
  C9: \<^verbatim>\<open>convert\<close> should leave its argument as it was. It pops \<^verbatim>\<open>'shape'\<close> from the caller's
  dictionary (lemma \<open>convert_pops_shape\<close>): after the call on
  \<^verbatim>\<open>{'shape': 'O', 'D': 2.0}\<close>, which returns the coefficients of the circle, the key
  \<^verbatim>\<open>'shape'\<close> is gone, and a second call on the same dictionary raises \<open>KeyError\<close>.
\<close>

theorem convert_mutates_argument:
  "[''shape'' \<mapsto> Str ''O'', ''D'' \<mapsto> Num 2] ''shape'' = Some (Str ''O'')
   \<and> fst (convert [''shape'' \<mapsto> Str ''O'', ''D'' \<mapsto> Num 2]) =
       Inr (Some [(''Ax'', pi), (''Iy'', pi / 4), (''Iz'', pi / 4), (''Zy'', pi / 16),
                  (''Zz'', pi / 16), (''iy'', 1 / 2), (''iz'', 1 / 2), (''J'', pi / 2)])
   \<and> snd (convert [''shape'' \<mapsto> Str ''O'', ''D'' \<mapsto> Num 2]) ''shape'' = None
   \<and> snd (convert [''shape'' \<mapsto> Str ''O'', ''D'' \<mapsto> Num 2]) ''D'' = Some (Num 2)
   \<and> fst (convert (snd (convert [''shape'' \<mapsto> Str ''O'', ''D'' \<mapsto> Num 2]))) = Inl KeyError"
  by (simp add: convert_def call_o_def accepts_def arg_def num_def o_section_def truthy_def
        pdiv_def psqrt_def Let_def sqrt_quarter)

subsection \<open>C10: no division by zero on valid input\<close>

text \<open>
  C10: for \<open>L > 0\<close>, \<open>E > 0\<close>, \<open>G > 0\<close>, \<open>Ax > 0\<close> and \<open>Iz\<close>, \<open>Iy\<close>, \<open>Ay\<close>, \<open>Az\<close>, \<open>J\<close>
  non-negative, every divisor in \<^verbatim>\<open>stiffness_local\<close> is non-zero (\<open>L\<close> and \<open>G\<close> are positive,
  the defaulted \<open>Ay\<close> and \<open>Az\<close> are positive, \<open>phiY + 1\<close> and \<open>phiZ + 1\<close> are at least 1), so
  the function yields all four blocks. \<open>Ax > 0\<close> cannot be dropped: with \<open>Ax = 0\<close>, \<open>Ay = 0\<close>
  and \<open>Iz \<noteq> 0\<close> the defaulted \<open>Ay\<close> is a zero divisor.
\<close>

theorem stiffness_local_total:
  assumes "0 < L" "0 < E" "0 < G" "0 \<le> Ax" "0 \<le> Iz" "0 \<le> Iy" "0 \<le> Ay" "0 \<le> Az" "0 \<le> J"
  shows "(0 < Ax \<longrightarrow>
           (\<exists>phiY phiZ a s kzPre kyPre.
               shear_factors L E G Ax Iz Iy Ay Az = Inr (phiY, phiZ)
             \<and> 0 < (if Ay = 0 then Ax else Ay) \<and> 0 < (if Az = 0 then Ax else Az)
             \<and> 1 \<le> phiY + 1 \<and> 1 \<le> phiZ + 1
             \<and> base_terms L E G Ax Iz Iy J phiY phiZ = Inr (a, s, kzPre, kyPre)
             \<and> stiffness_local L E G Ax Iz Iy Ay Az J =
                 Inr (blocks L phiY phiZ a s kzPre kyPre)
             \<and> length (blocks L phiY phiZ a s kzPre kyPre) = 4))
       \<and> (Ax = 0 \<and> Ay = 0 \<and> Iz \<noteq> 0 \<longrightarrow>
            stiffness_local L E G Ax Iz Iy Ay Az J = Inl ZeroDivisionError)"
proof (intro conjI impI)
  assume Ax: "0 < Ax"
  let ?pY = "phi_value Iz G (defaulted Ax Ay) L E"
  let ?pZ = "phi_value Iy G (defaulted Ax Az) L E"
  note v = stiffness_local_valid [OF assms(1-3) Ax assms(5-8)]
  have sf: "shear_factors L E G Ax Iz Iy Ay Az = Inr (?pY, ?pZ)"
    using assms v by (intro shear_factors_ok) auto
  have bt: "base_terms L E G Ax Iz Iy J ?pY ?pZ =
      Inr (Ax / L * E, J / L * G, Iz / (?pY + 1) / L / L * E, Iy / (?pZ + 1) / L / L * E)"
    using assms v by (intro base_terms_ok) auto
  have len: "length (blocks L pY pZ a s kz ky) = 4" for pY pZ a s kz ky
    by (simp add: blocks_def Let_def)
  show "\<exists>phiY phiZ a s kzPre kyPre.
               shear_factors L E G Ax Iz Iy Ay Az = Inr (phiY, phiZ)
             \<and> 0 < (if Ay = 0 then Ax else Ay) \<and> 0 < (if Az = 0 then Ax else Az)
             \<and> 1 \<le> phiY + 1 \<and> 1 \<le> phiZ + 1
             \<and> base_terms L E G Ax Iz Iy J phiY phiZ = Inr (a, s, kzPre, kyPre)
             \<and> stiffness_local L E G Ax Iz Iy Ay Az J =
                 Inr (blocks L phiY phiZ a s kzPre kyPre)
             \<and> length (blocks L phiY phiZ a s kzPre kyPre) = 4"
    using sf bt v len
    by (simp add: stiffness_local_def stiffness_from_factors_def defaulted_def)
next
  assume "Ax = 0 \<and> Ay = 0 \<and> Iz \<noteq> 0"
  then show "stiffness_local L E G Ax Iz Iy Ay Az J = Inl ZeroDivisionError"
    using assms by (simp add: stiffness_local_def shear_factors_def)
qed

theorem stiffness_local_total_witness:
  "(\<exists>phiY phiZ a s kzPre kyPre.
       shear_factors 3 2 1 4 5 0 0 6 = Inr (phiY, phiZ)
     \<and> base_terms 3 2 1 4 5 0 7 phiY phiZ = Inr (a, s, kzPre, kyPre)
     \<and> stiffness_local 3 2 1 4 5 0 0 6 7 = Inr (blocks 3 phiY phiZ a s kzPre kyPre))
   \<and> stiffness_local 1 1 1 0 1 0 0 0 0 = Inl ZeroDivisionError"
  using stiffness_local_total [of 3 2 1 4 5 0 0 6 7]
        stiffness_local_total [of 1 1 1 0 1 0 0 0 0]
  by (simp del: ex_simps) blast

end
